theory Spec2Isabelle
  imports Complex_Main "HOL-Library.Word" "HOL-Library.Signed_Division" "HOL-Library.Multiset"
begin

unbundle bit_operations_syntax

section \<open>Machine types\<close>

text \<open>
  The simulation of \<^verbatim>\<open>main.cpp\<close> works on \<^verbatim>\<open>std::size_t\<close> (64 bit, unsigned, wrapping),
  \<^verbatim>\<open>int\<close> (32 bit, two's complement), \<^verbatim>\<open>uint8_t\<close> and \<^verbatim>\<open>uint32_t\<close>. An \<^verbatim>\<open>int\<close> that
  meets a \<^verbatim>\<open>size_t\<close> in an expression is converted by sign extension (\<open>scast\<close>); a
  \<^verbatim>\<open>static_cast<int>\<close> of a \<^verbatim>\<open>size_t\<close> truncates (\<open>ucast\<close>). Reading an array out of range
  and dividing by zero are undefined behaviour in the source; here they are error values.
\<close>

type_synonym size_t = "64 word"
type_synonym cint = "32 word"
type_synonym uint8_t = "8 word"
type_synonym uint32_t = "32 word"

datatype error = OutOfRange | DivisionByZero

definition bind_e :: "error + 'a \<Rightarrow> ('a \<Rightarrow> error + 'b) \<Rightarrow> error + 'b" where
  "bind_e m f = (case m of Inl e \<Rightarrow> Inl e | Inr a \<Rightarrow> f a)"

text \<open>A \<^verbatim>\<open>for\<close> loop whose bound and index the body does not change.\<close>

fun for_each :: "nat list \<Rightarrow> (nat \<Rightarrow> 's \<Rightarrow> error + 's) \<Rightarrow> 's \<Rightarrow> error + 's" where
  "for_each [] body s = Inr s"
| "for_each (i # is) body s =
     (case body i s of Inl e \<Rightarrow> Inl e | Inr s' \<Rightarrow> for_each is body s')"

section \<open>Random numbers\<close>

text \<open>\<^verbatim>\<open>xorshift32\<close> returns the new value and stores it; the pair is (result, new state).\<close>

definition xorshift32 :: "uint32_t \<Rightarrow> uint32_t \<times> uint32_t" where
  "xorshift32 rng =
     (let x = rng;
          x = x XOR push_bit 13 x;
          x = x XOR drop_bit 17 x;
          x = x XOR push_bit 5 x
      in (x, x))"

definition uint32_max :: uint32_t where
  "uint32_max = 4294967295"

text \<open>
  \<^verbatim>\<open>random\<close> divides the generator's output by \<^verbatim>\<open>std::numeric_limits<uint32_t>::max()\<close>.
  The double is modelled by the exact quotient: both operands are exact as doubles, IEEE
  division is correctly rounded and monotone, and 1 is a double, so the double is below 1
  exactly when the quotient is, and is 1 exactly when the quotient is.
\<close>

definition random :: "uint32_t \<Rightarrow> real \<times> uint32_t" where
  "random rng = (let (x, rng') = xorshift32 rng in (real (unat x) / real (unat uint32_max), rng'))"

section \<open>Data\<close>

text \<open>Of a sprite only the size takes part in the simulation; the pixels are drawn only.\<close>

record Sprite =
  width :: size_t
  height :: size_t

record Alien =
  x :: size_t
  y :: size_t
  type :: uint8_t

definition DEAD :: uint8_t where "DEAD = 0"

record Player =
  x :: size_t
  y :: size_t
  lives :: size_t

record Bullet =
  x :: size_t
  y :: size_t
  dir :: cint

definition game_max_bullets :: cint where
  "game_max_bullets = 128"

record Game =
  width :: size_t
  height :: size_t
  num_aliens :: size_t
  num_bullets :: size_t
  aliens :: "Alien list"
  player :: Player
  bullets :: "Bullet list"

record Sprite_animation =
  loop :: bool
  num_frames :: size_t
  frame_duration :: size_t
  time :: size_t
  frames :: "Sprite list"

text \<open>The sprites of \<^verbatim>\<open>main\<close>, which the loop never changes.\<close>

definition bullet_sprite :: Sprite where
  "bullet_sprite = \<lparr>Sprite.width = 1, Sprite.height = 3\<rparr>"

definition alien_bullet_sprite :: "Sprite list" where
  "alien_bullet_sprite =
     [\<lparr>Sprite.width = 3, Sprite.height = 7\<rparr>, \<lparr>Sprite.width = 3, Sprite.height = 7\<rparr>]"

definition alien_sprites :: "Sprite list" where
  "alien_sprites =
     [\<lparr>Sprite.width = 8, Sprite.height = 8\<rparr>, \<lparr>Sprite.width = 8, Sprite.height = 8\<rparr>,
      \<lparr>Sprite.width = 11, Sprite.height = 8\<rparr>, \<lparr>Sprite.width = 11, Sprite.height = 8\<rparr>,
      \<lparr>Sprite.width = 12, Sprite.height = 8\<rparr>, \<lparr>Sprite.width = 12, Sprite.height = 8\<rparr>]"

definition alien_death_sprite :: Sprite where
  "alien_death_sprite = \<lparr>Sprite.width = 13, Sprite.height = 7\<rparr>"

definition player_sprite :: Sprite where
  "player_sprite = \<lparr>Sprite.width = 11, Sprite.height = 7\<rparr>"

text \<open>The globals of the file and the locals of \<^verbatim>\<open>main\<close> that the loop captures.\<close>

record State =
  game_running :: bool
  move_dir :: cint
  alien_move_dir :: cint
  fire_pressed :: bool
  should_change_speed :: bool
  aliens_killed :: cint
  alien_update_timer :: size_t
  alien_swarm_position :: size_t
  game :: Game
  alien_death_counter :: "uint8_t list"
  alien_animation :: "Sprite_animation list"
  alien_bullet_animation :: Sprite_animation
  rng :: uint32_t
  player_move :: cint
  score :: size_t
  alien_swarm_max_position :: size_t
  alien_update_frequency :: size_t

section \<open>Keyboard input\<close>

datatype Key = GLFW_KEY_ESCAPE | GLFW_KEY_D | GLFW_KEY_A | GLFW_KEY_SPACE | GLFW_KEY_OTHER
datatype Action = GLFW_PRESS | GLFW_RELEASE | GLFW_REPEAT

text \<open>The \<^verbatim>\<open>case\<close> of the escape key has its \<^verbatim>\<open>break\<close> inside the \<^verbatim>\<open>if\<close>: any other
  action on that key falls through to the case of the D key.\<close>

definition case_GLFW_KEY_D :: "Action \<Rightarrow> State \<Rightarrow> State" where
  "case_GLFW_KEY_D action s =
     (if action = GLFW_PRESS then s\<lparr>move_dir := move_dir s + 1\<rparr>
      else if action = GLFW_RELEASE then s\<lparr>move_dir := move_dir s - 1\<rparr>
      else s)"

fun key_callback :: "Key \<Rightarrow> Action \<Rightarrow> State \<Rightarrow> State" where
  "key_callback GLFW_KEY_ESCAPE action s =
     (if action = GLFW_PRESS then s\<lparr>game_running := False\<rparr>
      else case_GLFW_KEY_D action s)"
| "key_callback GLFW_KEY_D action s = case_GLFW_KEY_D action s"
| "key_callback GLFW_KEY_A action s =
     (if action = GLFW_PRESS then s\<lparr>move_dir := move_dir s - 1\<rparr>
      else if action = GLFW_RELEASE then s\<lparr>move_dir := move_dir s + 1\<rparr>
      else s)"
| "key_callback GLFW_KEY_SPACE action s =
     (if action = GLFW_PRESS then s\<lparr>fire_pressed := True\<rparr> else s)"
| "key_callback GLFW_KEY_OTHER action s = s"

text \<open>\<^verbatim>\<open>glfwPollEvents\<close> delivers the key events that arrived since the last call.\<close>

fun glfwPollEvents :: "(Key \<times> Action) list \<Rightarrow> State \<Rightarrow> State" where
  "glfwPollEvents [] s = s"
| "glfwPollEvents ((k, a) # evs) s = glfwPollEvents evs (key_callback k a s)"

section \<open>Overlap of two sprites\<close>

definition sprite_overlap_check ::
  "Sprite \<Rightarrow> size_t \<Rightarrow> size_t \<Rightarrow> Sprite \<Rightarrow> size_t \<Rightarrow> size_t \<Rightarrow> bool" where
  "sprite_overlap_check sp_a x_a y_a sp_b x_b y_b =
     (if x_a < x_b + Sprite.width sp_b \<and> x_a + Sprite.width sp_a > x_b \<and>
         y_a < y_b + Sprite.height sp_b \<and> y_a + Sprite.height sp_a > y_b
      then True else False)"

section \<open>The vertical pass over the aliens\<close>

text \<open>``update aliens position after going beyond y'': the body of the loop over the aliens.\<close>

definition update_alien_position :: "nat \<Rightarrow> State \<Rightarrow> error + State" where
  "update_alien_position i s =
     (if \<not> i < length (aliens (game s)) then Inl OutOfRange
      else
        let alien = aliens (game s) ! i
        in if Alien.type alien = DEAD then Inr s
           else if Alien.y alien > Game.height (game s) then
             (if alien_swarm_max_position s = 0 then Inl DivisionByZero
              else Inr (s\<lparr>game := (game s)\<lparr>aliens := (aliens (game s))
                            [i := alien\<lparr>Alien.y := 0,
                                        Alien.x := ucast (rng s) mod alien_swarm_max_position s,
                                        Alien.type := DEAD\<rparr>]\<rparr>,
                          alien_move_dir := alien_move_dir s - 1\<rparr>))
           else Inr (s\<lparr>game := (game s)\<lparr>aliens := (aliens (game s))
                         [i := alien\<lparr>Alien.y := Alien.y alien + scast (alien_move_dir s)\<rparr>]\<rparr>\<rparr>))"

text \<open>The test \<^verbatim>\<open>alien_update_frequency-- == 0\<close> reads the counter, then decrements it.\<close>

definition update_aliens_position :: "State \<Rightarrow> error + State" where
  "update_aliens_position s =
     (if alien_update_frequency s = 0 then
        for_each [0..<unat (num_aliens (game s))] update_alien_position
          (s\<lparr>alien_update_frequency := 120\<rparr>)
      else Inr (s\<lparr>alien_update_frequency := alien_update_frequency s - 1\<rparr>))"

section \<open>Bullets\<close>

text \<open>\<^verbatim>\<open>game.bullets[i] = game.bullets[game.num_bullets - 1]; --game.num_bullets;\<close>\<close>

definition remove_bullet :: "size_t \<Rightarrow> Game \<Rightarrow> error + Game" where
  "remove_bullet i g =
     (if unat i < length (bullets g) \<and> unat (num_bullets g - 1) < length (bullets g)
      then Inr (g\<lparr>bullets := (bullets g)[unat i := bullets g ! unat (num_bullets g - 1)],
                  num_bullets := num_bullets g - 1\<rparr>)
      else Inl OutOfRange)"

text \<open>The sprite of the current frame of an alien of type \<open>ty\<close>:
  \<^verbatim>\<open>*alien_animation[type - 1].frames[time / frame_duration]\<close>.\<close>

definition current_frame_sprite :: "State \<Rightarrow> uint8_t \<Rightarrow> error + Sprite" where
  "current_frame_sprite s ty =
     (let k = sint (ucast ty - 1 :: cint)
      in if k < 0 \<or> \<not> nat k < length (alien_animation s) then Inl OutOfRange
         else
           let animation = alien_animation s ! nat k
           in if frame_duration animation = 0 then Inl DivisionByZero
              else
                let current_frame = time animation div frame_duration animation
                in if \<not> unat current_frame < length (frames animation) then Inl OutOfRange
                   else Inr (frames animation ! unat current_frame))"

text \<open>``Check if player bullet hits an alien bullet'': the inner loop declares its own
  \<^verbatim>\<open>i\<close>, which hides the index of the bullet being simulated.\<close>

function bullet_vs_bullet :: "size_t \<Rightarrow> State \<Rightarrow> error + State" where
  "bullet_vs_bullet i s =
     (if i < num_bullets (game s) then
        if i = i then bullet_vs_bullet (i + 1) s
        else if \<not> unat i < length (bullets (game s)) then Inl OutOfRange
        else
          let g = game s;
              b = bullets g ! unat i;
              overlap = sprite_overlap_check bullet_sprite (Bullet.x b) (Bullet.y b)
                          (alien_bullet_sprite ! 0) (Bullet.x b) (Bullet.y b)
          in if overlap then
               (if \<not> (unat (num_bullets g - 1) < length (bullets g) \<and>
                       unat (num_bullets g - 2) < length (bullets g))
                then Inl OutOfRange
                else
                  let bs =
                    (if i = num_bullets g - 1
                     then (bullets g)[unat i := bullets g ! unat (num_bullets g - 2)]
                     else if i = num_bullets g - 1
                     then (bullets g)[unat i := bullets g ! unat (num_bullets g - 2)]
                     else
                       let bs1 = (bullets g)[unat (if i < i then i else i) :=
                                   bullets g ! unat (num_bullets g - 1)]
                       in bs1[unat (if i < i then i else i) := bs1 ! unat (num_bullets g - 2)])
                  in Inr (s\<lparr>game := g\<lparr>bullets := bs, num_bullets := num_bullets g - 2\<rparr>\<rparr>))
             else bullet_vs_bullet (i + 1) s
      else Inr s)"
  by pat_completeness auto

text \<open>What a hit does: lines of the branch taken when the bullet overlaps alien \<open>j\<close>.\<close>

definition alien_hit :: "size_t \<Rightarrow> nat \<Rightarrow> Sprite \<Rightarrow> State \<Rightarrow> error + State" where
  "alien_hit i j alien_sprite s =
     (let g = game s;
          alien = aliens g ! j;
          score' = score s + scast (10 * (4 - ucast (Alien.type alien)) :: cint);
          alien = alien\<lparr>Alien.type := DEAD\<rparr>;
          alien = alien\<lparr>Alien.x := Alien.x alien -
                    (Sprite.width alien_death_sprite - Sprite.width alien_sprite) div 2\<rparr>
      in case remove_bullet i (g\<lparr>aliens := (aliens g)[j := alien]\<rparr>) of
           Inl e \<Rightarrow> Inl e
         | Inr g' \<Rightarrow>
             let killed = aliens_killed s + 1
             in Inr (s\<lparr>score := score', game := g', aliens_killed := killed,
                       should_change_speed :=
                         (if sint killed smod 15 = 0 then True else should_change_speed s)\<rparr>))"

text \<open>``Check hit'': the loop over the aliens for the player bullet in slot \<open>i\<close>; it
  stops at the first alien hit.\<close>

fun check_hit :: "nat list \<Rightarrow> size_t \<Rightarrow> State \<Rightarrow> error + State" where
  "check_hit [] i s = Inr s"
| "check_hit (j # js) i s =
     (if \<not> j < length (aliens (game s)) then Inl OutOfRange
      else
        let alien = aliens (game s) ! j
        in if Alien.type alien = DEAD then check_hit js i s
           else
             (case current_frame_sprite s (Alien.type alien) of
                Inl e \<Rightarrow> Inl e
              | Inr alien_sprite \<Rightarrow>
                  if \<not> unat i < length (bullets (game s)) then Inl OutOfRange
                  else
                    let b = bullets (game s) ! unat i
                    in if sprite_overlap_check bullet_sprite (Bullet.x b) (Bullet.y b)
                            alien_sprite (Alien.x alien) (Alien.y alien)
                       then alien_hit i j alien_sprite s
                       else check_hit js i s))"

datatype flow = Next | Break

text \<open>One pass of the body of ``Simulate bullets'' for slot \<open>i\<close>: the bullet moves, then
  it leaves the field, or it is an alien bullet (\<open>alien_bullet\<close>) or a player bullet
  (\<open>player_bullet\<close>). \<open>Next\<close> stands for reaching \<^verbatim>\<open>++i\<close> (by \<^verbatim>\<open>continue\<close> or by the
  end of the body), \<open>Break\<close> for leaving the loop.\<close>

definition alien_bullet :: "size_t \<Rightarrow> Bullet \<Rightarrow> State \<Rightarrow> error + flow \<times> State" where
  "alien_bullet i b s =
     (let g = game s;
          overlap = sprite_overlap_check (alien_bullet_sprite ! 0) (Bullet.x b) (Bullet.y b)
                      player_sprite (Player.x (player g)) (Player.y (player g))
      in if overlap then
           (case remove_bullet i (g\<lparr>player := (player g)\<lparr>lives := lives (player g) - 1\<rparr>\<rparr>) of
              Inl e \<Rightarrow> Inl e
            | Inr g' \<Rightarrow> Inr (Break, s\<lparr>game := g'\<rparr>))
         else Inr (Next, s))"

definition player_bullet :: "size_t \<Rightarrow> State \<Rightarrow> error + flow \<times> State" where
  "player_bullet i s =
     (case bullet_vs_bullet 0 s of
        Inl e \<Rightarrow> Inl e
      | Inr s \<Rightarrow>
          (case check_hit [0..<unat (num_aliens (game s))] i s of
             Inl e \<Rightarrow> Inl e
           | Inr s \<Rightarrow> Inr (Next, s)))"

definition simulate_bullet :: "size_t \<Rightarrow> State \<Rightarrow> error + flow \<times> State" where
  "simulate_bullet i s =
     (let g = game s
      in if \<not> unat i < length (bullets g) then Inl OutOfRange
         else
           let b = bullets g ! unat i;
               b = b\<lparr>Bullet.y := Bullet.y b + scast (Bullet.dir b)\<rparr>;
               g = g\<lparr>bullets := (bullets g)[unat i := b]\<rparr>
           in if Bullet.y b \<ge> Game.height g \<or> Bullet.y b < Sprite.height bullet_sprite then
                (case remove_bullet i g of
                   Inl e \<Rightarrow> Inl e
                 | Inr g' \<Rightarrow> Inr (Next, s\<lparr>game := g'\<rparr>))
              else if sint (Bullet.dir b) < 0 then alien_bullet i b (s\<lparr>game := g\<rparr>)
              else player_bullet i (s\<lparr>game := g\<rparr>))"

function simulate_bullets :: "size_t \<Rightarrow> State \<Rightarrow> error + State" where
  "simulate_bullets i s =
     (if i < num_bullets (game s) then
        (case simulate_bullet i s of
           Inl e \<Rightarrow> Inl e
         | Inr (Break, s') \<Rightarrow> Inr s'
         | Inr (Next, s') \<Rightarrow> simulate_bullets (i + 1) s')
      else Inr s)"
  by pat_completeness auto

section \<open>Speed, death counters, the step of the formation\<close>

text \<open>``Simulate aliens'': the block run when the flag \<^verbatim>\<open>should_change_speed\<close> is up.\<close>

definition change_speed :: "State \<Rightarrow> State" where
  "change_speed s =
     (if should_change_speed s then
        let f = alien_update_frequency s div 2
        in s\<lparr>should_change_speed := False,
             alien_update_frequency := f,
             alien_animation :=
               fold (\<lambda>i an. an[i := (an ! i)\<lparr>frame_duration := f\<rparr>]) [0..<3] (alien_animation s)\<rparr>
      else s)"

text \<open>``counting deaths''\<close>

definition count_death :: "nat \<Rightarrow> State \<Rightarrow> error + State" where
  "count_death i s =
     (if \<not> i < length (aliens (game s)) then Inl OutOfRange
      else if Alien.type (aliens (game s) ! i) = DEAD then
        (if \<not> i < length (alien_death_counter s) then Inl OutOfRange
         else if alien_death_counter s ! i \<noteq> 0 then
           Inr (s\<lparr>alien_death_counter :=
                    (alien_death_counter s)[i := alien_death_counter s ! i - 1]\<rparr>)
         else Inr s)
      else Inr s)"

definition counting_deaths :: "State \<Rightarrow> error + State" where
  "counting_deaths s = for_each [0..<unat (num_aliens (game s))] count_death s"

text \<open>The step of the formation, up to and including the move of every alien.\<close>

definition alien_down :: "nat \<Rightarrow> State \<Rightarrow> error + State" where
  "alien_down ai s =
     (if \<not> ai < length (aliens (game s)) then Inl OutOfRange
      else
        let alien = aliens (game s) ! ai
        in Inr (s\<lparr>game := (game s)\<lparr>aliens := (aliens (game s))
                     [ai := alien\<lparr>Alien.y := Alien.y alien - 8\<rparr>]\<rparr>\<rparr>))"

definition alien_sideways :: "nat \<Rightarrow> State \<Rightarrow> error + State" where
  "alien_sideways ai s =
     (if \<not> ai < length (aliens (game s)) then Inl OutOfRange
      else
        let alien = aliens (game s) ! ai
        in Inr (s\<lparr>game := (game s)\<lparr>aliens := (aliens (game s))
                     [ai := alien\<lparr>Alien.x := Alien.x alien + scast (alien_move_dir s)\<rparr>]\<rparr>\<rparr>))"

definition move_swarm :: "State \<Rightarrow> error + State" where
  "move_swarm s =
     (let s = s\<lparr>alien_update_timer := 0\<rparr>
      in bind_e
           (if sint (ucast (alien_swarm_position s) + alien_move_dir s :: cint) < 0 then
              for_each [0..<unat (num_aliens (game s))] alien_down
                (s\<lparr>alien_move_dir := alien_move_dir s * (- 1)\<rparr>)
            else if alien_swarm_position s >
                      alien_swarm_max_position s - scast (alien_move_dir s) then
              Inr (s\<lparr>alien_move_dir := alien_move_dir s * (- 1)\<rparr>)
            else Inr s)
           (\<lambda>s. for_each [0..<unat (num_aliens (game s))] alien_sideways
                  (s\<lparr>alien_swarm_position :=
                       alien_swarm_position s + scast (alien_move_dir s)\<rparr>)))"

text \<open>
  The choice of a random alien that is not dead:
  \<^verbatim>\<open>rai = static_cast<size_t>(game.num_aliens * random(&rng))\<close>, repeated while
  \<^verbatim>\<open>game.aliens[rai].type == DEAD\<close>. The loop has no bound, so the function is partial:
  \<open>None\<close> is a run that never leaves the loop. The product is modelled exactly; the
  double can differ from it by a few units in the last place, which changes the
  truncation only where the exact product is a whole number.
\<close>

partial_function (option) pick_alive ::
  "Alien list \<Rightarrow> size_t \<Rightarrow> uint32_t \<Rightarrow> (error + size_t \<times> uint32_t) option" where
  "pick_alive as n r =
     (if \<not> unat (of_nat (nat \<lfloor>real (unat n) * fst (random r)\<rfloor>) :: size_t) < length as
      then Some (Inl OutOfRange)
      else if Alien.type (as ! unat (of_nat (nat \<lfloor>real (unat n) * fst (random r)\<rfloor>) :: size_t)) = DEAD
      then pick_alive as n (snd (random r))
      else Some (Inr (of_nat (nat \<lfloor>real (unat n) * fst (random r)\<rfloor>), snd (random r))))"

text \<open>The sprite \<^verbatim>\<open>*alien_animation[type - 1].frames[0]\<close>.\<close>

definition first_frame_sprite :: "State \<Rightarrow> uint8_t \<Rightarrow> error + Sprite" where
  "first_frame_sprite s ty =
     (let k = sint (ucast ty - 1 :: cint)
      in if k < 0 \<or> \<not> nat k < length (alien_animation s) then Inl OutOfRange
         else if frames (alien_animation s ! nat k) = [] then Inl OutOfRange
         else Inr (frames (alien_animation s ! nat k) ! 0))"

text \<open>The bullet of alien \<open>rai\<close> is written to slot \<^verbatim>\<open>game.num_bullets\<close>, with no test
  of that slot against the size of the array.\<close>

definition spawn_alien_bullet :: "size_t \<Rightarrow> State \<Rightarrow> error + State" where
  "spawn_alien_bullet rai s =
     (let g = game s
      in if \<not> unat rai < length (aliens g) then Inl OutOfRange
         else
           let alien = aliens g ! unat rai
           in case first_frame_sprite s (Alien.type alien) of
                Inl e \<Rightarrow> Inl e
              | Inr alien_sprite \<Rightarrow>
                  if \<not> unat (num_bullets g) < length (bullets g) then Inl OutOfRange
                  else Inr (s\<lparr>game := g\<lparr>bullets := (bullets g)
                              [unat (num_bullets g) :=
                                 \<lparr>Bullet.x = Alien.x alien + Sprite.width alien_sprite div 2,
                                  Bullet.y = Alien.y alien - Sprite.height (alien_bullet_sprite ! 0),
                                  Bullet.dir = - 2\<rparr>],
                            num_bullets := num_bullets g + 1\<rparr>\<rparr>))"

definition formation_step :: "State \<Rightarrow> (error + State) option" where
  "formation_step s =
     (if alien_update_timer s \<ge> alien_update_frequency s then
        (case move_swarm s of
           Inl e \<Rightarrow> Some (Inl e)
         | Inr s1 \<Rightarrow>
             if scast (aliens_killed s1) < num_aliens (game s1) then
               (case pick_alive (aliens (game s1)) (num_aliens (game s1)) (rng s1) of
                  None \<Rightarrow> None
                | Some (Inl e) \<Rightarrow> Some (Inl e)
                | Some (Inr (rai, r)) \<Rightarrow> Some (spawn_alien_bullet rai (s1\<lparr>rng := r\<rparr>)))
             else Some (Inr s1))
      else Some (Inr s))"

section \<open>Animation clocks and the player\<close>

definition update_animation :: "Sprite_animation \<Rightarrow> Sprite_animation" where
  "update_animation a =
     (let a = a\<lparr>time := time a + 1\<rparr>
      in if time a \<ge> num_frames a * frame_duration a then a\<lparr>time := 0\<rparr> else a)"

text \<open>``Update animations'', with the \<^verbatim>\<open>++alien_update_timer\<close> that follows it.\<close>

definition update_animations :: "State \<Rightarrow> State" where
  "update_animations s =
     s\<lparr>alien_animation :=
         fold (\<lambda>i an. an[i := update_animation (an ! i)]) [0..<3] (alien_animation s),
       alien_bullet_animation := update_animation (alien_bullet_animation s),
       alien_update_timer := alien_update_timer s + 1\<rparr>"

text \<open>``simulating player''. In the first test the sum is a \<^verbatim>\<open>size_t\<close>: \<^verbatim>\<open>player_move\<close> is
  converted, and a sum below zero wraps around.\<close>

definition simulating_player :: "State \<Rightarrow> State" where
  "simulating_player s =
     (let s = s\<lparr>player_move := 2 * move_dir s\<rparr>;
          g = game s;
          p = player g
      in if player_move s \<noteq> 0 then
           (if Player.x p + Sprite.width player_sprite + scast (player_move s) \<ge> Game.width g
            then s\<lparr>game := g\<lparr>player :=
                     p\<lparr>Player.x := Game.width g - Sprite.width player_sprite\<rparr>\<rparr>\<rparr>
            else if sint (ucast (Player.x p) + player_move s :: cint) \<le> 0
            then s\<lparr>game := g\<lparr>player := p\<lparr>Player.x := 0\<rparr>\<rparr>\<rparr>
            else s\<lparr>game := g\<lparr>player :=
                     p\<lparr>Player.x := Player.x p + scast (player_move s)\<rparr>\<rparr>\<rparr>)
         else s)"

section \<open>Bounds of the swarm and the new wave\<close>

text \<open>\<^verbatim>\<open>while (game.aliens[ai].type == DEAD) ++ai;\<close> The index is a natural number: a
  vector has fewer than \<open>2 ^ 64\<close> elements, so the read is out of range before the index
  could wrap.\<close>

function first_alive :: "nat \<Rightarrow> Alien list \<Rightarrow> error + nat" where
  "first_alive ai as =
     (if \<not> ai < length as then Inl OutOfRange
      else if Alien.type (as ! ai) = DEAD then first_alive (ai + 1) as
      else Inr ai)"
  by pat_completeness auto
termination
  by (relation "measure (\<lambda>(ai, as). length as - ai)") auto

declare first_alive.simps [simp del]

text \<open>\<^verbatim>\<open>while (game.aliens[ai].type == DEAD) --ai;\<close> At index 0 the decrement wraps to the
  largest \<^verbatim>\<open>size_t\<close>, which is out of range of any vector.\<close>

fun last_alive :: "nat \<Rightarrow> Alien list \<Rightarrow> error + nat" where
  "last_alive 0 as =
     (if as = [] then Inl OutOfRange
      else if Alien.type (as ! 0) = DEAD then Inl OutOfRange
      else Inr 0)"
| "last_alive (Suc ai) as =
     (if \<not> Suc ai < length as then Inl OutOfRange
      else if Alien.type (as ! Suc ai) = DEAD then last_alive ai as
      else Inr (Suc ai))"

text \<open>The sprite \<^verbatim>\<open>alien_sprites[2 * (type - 1)]\<close>.\<close>

definition type_sprite :: "uint8_t \<Rightarrow> error + Sprite" where
  "type_sprite ty =
     (let k = sint (2 * (ucast ty - 1) :: cint)
      in if k < 0 \<or> \<not> nat k < length alien_sprites then Inl OutOfRange
         else Inr (alien_sprites ! nat k))"

definition swarm_bounds :: "State \<Rightarrow> error + State" where
  "swarm_bounds s =
     (let g = game s
      in case first_alive 0 (aliens g) of
           Inl e \<Rightarrow> Inl e
         | Inr ai \<Rightarrow>
             (case type_sprite (Alien.type (aliens g ! ai)) of
                Inl e \<Rightarrow> Inl e
              | Inr sprite \<Rightarrow>
                  let pos = Alien.x (aliens g ! ai) -
                              (Sprite.width alien_death_sprite - Sprite.width sprite) div 2;
                      s = (if pos > alien_swarm_position s
                           then s\<lparr>alien_swarm_position := pos\<rparr> else s)
                  in (case last_alive (unat (num_aliens g - 1)) (aliens g) of
                        Inl e \<Rightarrow> Inl e
                      | Inr ai \<Rightarrow>
                          let pos = Game.width g - Alien.x (aliens g ! ai) - 13 + pos
                          in Inr (if pos > alien_swarm_max_position s
                                  then s\<lparr>alien_swarm_max_position := pos\<rparr> else s))))"

text \<open>The body of the two loops of the new wave, for column \<open>xi\<close> and row \<open>yi\<close>.\<close>

definition reset_alien :: "nat \<Rightarrow> nat \<Rightarrow> State \<Rightarrow> error + State" where
  "reset_alien xi yi s =
     (let ai = xi * 5 + yi
      in if \<not> (ai < length (alien_death_counter s) \<and> ai < length (aliens (game s)))
         then Inl OutOfRange
         else
           let ty = (ucast ((5 - of_nat yi) div 2 + 1 :: size_t) :: uint8_t)
           in case type_sprite ty of
                Inl e \<Rightarrow> Inl e
              | Inr sprite \<Rightarrow>
                  let alien = (aliens (game s) ! ai)
                        \<lparr>Alien.type := ty,
                         Alien.x := 16 * of_nat xi + alien_swarm_position s +
                           (Sprite.width alien_death_sprite - Sprite.width sprite) div 2,
                         Alien.y := 17 * of_nat yi + 128\<rparr>
                  in Inr (s\<lparr>alien_death_counter := (alien_death_counter s)[ai := 10],
                            game := (game s)\<lparr>aliens := (aliens (game s))[ai := alien]\<rparr>\<rparr>))"

definition reset_wave :: "State \<Rightarrow> error + State" where
  "reset_wave s =
     for_each [0..<11] (\<lambda>xi. for_each [0..<5] (\<lambda>yi. reset_alien xi yi))
       (s\<lparr>alien_update_frequency := 120, alien_swarm_position := 24, aliens_killed := 0,
          alien_update_timer := 0, alien_move_dir := 4\<rparr>)"

definition swarm_bounds_or_reset :: "State \<Rightarrow> error + State" where
  "swarm_bounds_or_reset s =
     (if scast (aliens_killed s) < num_aliens (game s) then swarm_bounds s else reset_wave s)"

section \<open>The shot of the player\<close>

text \<open>``process events''\<close>

definition process_events :: "State \<Rightarrow> error + State" where
  "process_events s =
     bind_e
       (let g = game s
        in if fire_pressed s \<and> num_bullets g < scast game_max_bullets then
             (if \<not> unat (num_bullets g) < length (bullets g) then Inl OutOfRange
              else Inr (s\<lparr>game := g\<lparr>bullets := (bullets g)
                          [unat (num_bullets g) :=
                             \<lparr>Bullet.x = Player.x (player g) + Sprite.width player_sprite div 2,
                              Bullet.y = Player.y (player g),
                              Bullet.dir = 2\<rparr>],
                        num_bullets := num_bullets g + 1\<rparr>\<rparr>))
           else Inr s)
       (\<lambda>s. Inr (s\<lparr>fire_pressed := False\<rparr>))"

section \<open>One pass of the loop\<close>

text \<open>
  Drawing writes the pixel buffer only, and the simulation never reads the buffer, so
  the buffer is not part of the state. What drawing reads can trap, and that is kept:
  the loop over the aliens indexes \<^verbatim>\<open>alien_death_counter\<close>, \<^verbatim>\<open>game.aliens\<close>,
  \<^verbatim>\<open>alien_animation\<close> and \<^verbatim>\<open>frames\<close> and divides by \<^verbatim>\<open>frame_duration\<close>; the loop over the
  bullets indexes \<^verbatim>\<open>game.bullets\<close> and \<^verbatim>\<open>alien_bullet_sprite\<close> and divides by the frame
  duration of the bullet animation; the line under the score is written to the buffer
  of \<open>224 * 256\<close> pixels without a test. The texts, the numbers and the sprites are
  written through \<^verbatim>\<open>buf_sprt_draw\<close>, which tests every pixel against the buffer.
\<close>

definition buffer_size :: nat where
  "buffer_size = 224 * 256"

definition draw_line :: "nat \<Rightarrow> State \<Rightarrow> error + State" where
  "draw_line i s =
     (if unat (Game.width (game s) * 16 + of_nat i) < buffer_size then Inr s
      else Inl OutOfRange)"

definition draw_alien :: "nat \<Rightarrow> State \<Rightarrow> error + State" where
  "draw_alien i s =
     (if \<not> i < length (alien_death_counter s) then Inl OutOfRange
      else if alien_death_counter s ! i = 0 then Inr s
      else if \<not> i < length (aliens (game s)) then Inl OutOfRange
      else
        let alien = aliens (game s) ! i
        in if Alien.type alien = DEAD then Inr s
           else
             (case current_frame_sprite s (Alien.type alien) of
                Inl e \<Rightarrow> Inl e
              | Inr sprite \<Rightarrow> Inr s))"

definition draw_bullet :: "nat \<Rightarrow> State \<Rightarrow> error + State" where
  "draw_bullet i s =
     (if \<not> i < length (bullets (game s)) then Inl OutOfRange
      else
        let bullet = bullets (game s) ! i
        in if sint (Bullet.dir bullet) > 0 then Inr s
           else if frame_duration (alien_bullet_animation s) = 0 then Inl DivisionByZero
           else
             let c = time (alien_bullet_animation s) div frame_duration (alien_bullet_animation s)
             in if \<not> unat c < length alien_bullet_sprite then Inl OutOfRange else Inr s)"

text \<open>``Draw'': the part of the pass before the simulation, when the player has lives.\<close>

definition draw :: "State \<Rightarrow> error + State" where
  "draw s =
     bind_e (for_each [0..<unat (Game.width (game s))] draw_line s)
       (\<lambda>s. bind_e (for_each [0..<unat (num_aliens (game s))] draw_alien s)
          (\<lambda>s. for_each [0..<unat (num_bullets (game s))] draw_bullet s))"

text \<open>The statements of the loop body after the drawing, in the order of the source.\<close>

definition simulate :: "State \<Rightarrow> (error + State) option" where
  "simulate s =
     (case update_aliens_position s of
        Inl e \<Rightarrow> Some (Inl e)
      | Inr s \<Rightarrow>
     (case simulate_bullets 0 s of
        Inl e \<Rightarrow> Some (Inl e)
      | Inr s \<Rightarrow>
     (case counting_deaths (change_speed s) of
        Inl e \<Rightarrow> Some (Inl e)
      | Inr s \<Rightarrow>
     (case formation_step s of
        None \<Rightarrow> None
      | Some (Inl e) \<Rightarrow> Some (Inl e)
      | Some (Inr s) \<Rightarrow>
     (case swarm_bounds_or_reset (simulating_player (update_animations s)) of
        Inl e \<Rightarrow> Some (Inl e)
      | Inr s \<Rightarrow> Some (process_events s))))))"

text \<open>With no lives left the pass draws the closing screen (texts and the score only),
  polls the events and goes on to the next pass (\<^verbatim>\<open>continue\<close>); otherwise it draws, runs
  the simulation and polls the events.\<close>

definition frame :: "(Key \<times> Action) list \<Rightarrow> State \<Rightarrow> (error + State) option" where
  "frame evs s =
     (if lives (player (game s)) = 0 then Some (Inr (glfwPollEvents evs s))
      else
        (case draw s of
           Inl e \<Rightarrow> Some (Inl e)
         | Inr s \<Rightarrow>
             (case simulate s of
                None \<Rightarrow> None
              | Some (Inl e) \<Rightarrow> Some (Inl e)
              | Some (Inr s') \<Rightarrow> Some (Inr (glfwPollEvents evs s')))))"

text \<open>The loop runs while \<^verbatim>\<open>game_running\<close> holds; each pass receives the key events of
  its poll. The list ends where the window is closed.\<close>

fun main_loop :: "(Key \<times> Action) list list \<Rightarrow> State \<Rightarrow> (error + State) option" where
  "main_loop [] s = Some (Inr s)"
| "main_loop (evs # rest) s =
     (if \<not> game_running s then Some (Inr s)
      else
        (case frame evs s of
           None \<Rightarrow> None
         | Some (Inl e) \<Rightarrow> Some (Inl e)
         | Some (Inr s') \<Rightarrow> main_loop rest s'))"

section \<open>The state at the start of the loop\<close>

text \<open>``positioning aliens'' and ``spread the aliens'' in \<^verbatim>\<open>main\<close>, on the vector of 55
  aliens.\<close>

definition position_alien :: "nat \<Rightarrow> nat \<Rightarrow> Alien list \<Rightarrow> Alien list" where
  "position_alien i j as =
     as[i * 11 + j := (as ! (i * 11 + j))
          \<lparr>Alien.x := 17 * of_nat j + 22, Alien.y := 17 * of_nat i + 128\<rparr>]"

definition spread_alien :: "size_t \<Rightarrow> nat \<Rightarrow> nat \<Rightarrow> Alien list \<Rightarrow> Alien list" where
  "spread_alien swarm_position yi xi as =
     (let ty = (ucast ((5 - of_nat yi) div 2 + 1 :: size_t) :: uint8_t);
          sprite = alien_sprites ! nat (sint (2 * (ucast ty - 1) :: cint))
      in as[yi * 11 + xi := (as ! (yi * 11 + xi))
              \<lparr>Alien.type := ty,
               Alien.x := 16 * of_nat xi + swarm_position +
                 (Sprite.width alien_death_sprite - Sprite.width sprite) div 2,
               Alien.y := 17 * of_nat yi + 128\<rparr>])"

definition initial_aliens :: "Alien list" where
  "initial_aliens =
     fold (\<lambda>yi. fold (\<lambda>xi. spread_alien 24 yi xi) [0..<11]) [0..<5]
       (fold (\<lambda>i. fold (\<lambda>j. position_alien i j) [0..<11]) [0..<5]
          (replicate 55 \<lparr>Alien.x = 0, Alien.y = 0, Alien.type = 0\<rparr>))"

definition initial_animation :: "nat \<Rightarrow> Sprite_animation" where
  "initial_animation i =
     \<lparr>loop = True, num_frames = 2, frame_duration = 10, time = 0,
      frames = [alien_sprites ! (2 * i), alien_sprites ! (2 * i + 1)]\<rparr>"

definition initial_state :: State where
  "initial_state =
     \<lparr>game_running = True, move_dir = 0, alien_move_dir = 4, fire_pressed = False,
      should_change_speed = False, aliens_killed = 0, alien_update_timer = 0,
      alien_swarm_position = 24,
      game = \<lparr>Game.width = 224, Game.height = 256, num_aliens = 55, num_bullets = 0,
               aliens = initial_aliens,
               player = \<lparr>Player.x = 112 - 5, Player.y = 32, lives = 3\<rparr>,
               bullets = replicate 128 \<lparr>Bullet.x = 0, Bullet.y = 0, Bullet.dir = 0\<rparr>\<rparr>,
      alien_death_counter = replicate 55 10,
      alien_animation = map initial_animation [0..<3],
      alien_bullet_animation =
        \<lparr>loop = True, num_frames = 2, frame_duration = 5, time = 0,
         frames = alien_bullet_sprite\<rparr>,
      rng = 13, player_move = 0, score = 0,
      alien_swarm_max_position = 224 - 16 * 11 - 3,
      alien_update_frequency = 120\<rparr>"

section \<open>Termination of the loops over the bullets\<close>

lemma unat_plus1: "(i :: size_t) < n \<Longrightarrow> unat (i + 1) = Suc (unat i)"
  by unat_arith

termination bullet_vs_bullet
  by (relation "measure (\<lambda>(i, s). unat (num_bullets (game s)) - unat i)")
     (auto simp: unat_plus1 word_less_nat_alt)

declare bullet_vs_bullet.simps [simp del]

lemma bullet_vs_bullet_skip: "bullet_vs_bullet i s = Inr s"
proof (induction i s rule: bullet_vs_bullet.induct)
  case (1 i s)
  show ?case
  proof (cases "i < num_bullets (game s)")
    case True
    with "1.IH"(1) have "bullet_vs_bullet (i + 1) s = Inr s" by simp
    with True show ?thesis by (subst bullet_vs_bullet.simps) simp
  next
    case False
    then show ?thesis by (subst bullet_vs_bullet.simps) simp
  qed
qed

lemma remove_bullet_num:
  "remove_bullet i g = Inr g' \<Longrightarrow> num_bullets g' = num_bullets g - 1"
  by (auto simp: remove_bullet_def split: if_splits)

lemma alien_hit_num:
  "alien_hit i j sp s = Inr s' \<Longrightarrow> num_bullets (game s') = num_bullets (game s) - 1"
  by (auto simp: alien_hit_def Let_def split: sum.splits dest!: remove_bullet_num)

lemma check_hit_num:
  "check_hit js i s = Inr s' \<Longrightarrow>
   num_bullets (game s') = num_bullets (game s) \<or> num_bullets (game s') = num_bullets (game s) - 1"
proof (induction js)
  case Nil
  then show ?case by simp
next
  case (Cons j js)
  then show ?case
    by (auto simp: Let_def split: if_splits sum.splits dest: alien_hit_num)
qed

lemma alien_bullet_num:
  "alien_bullet i b s = Inr (fl, s') \<Longrightarrow>
   num_bullets (game s') = num_bullets (game s) \<or> num_bullets (game s') = num_bullets (game s) - 1"
  unfolding alien_bullet_def Let_def
  by (auto split: if_splits sum.splits dest!: remove_bullet_num)

lemma player_bullet_num:
  "player_bullet i s = Inr (fl, s') \<Longrightarrow>
   num_bullets (game s') = num_bullets (game s) \<or> num_bullets (game s') = num_bullets (game s) - 1"
  unfolding player_bullet_def
  by (auto simp: bullet_vs_bullet_skip split: sum.splits dest: check_hit_num)

lemma simulate_bullet_num:
  assumes "simulate_bullet i s = Inr (fl, s')"
  shows "num_bullets (game s') = num_bullets (game s) \<or>
         num_bullets (game s') = num_bullets (game s) - 1"
proof -
  define b where "b = (bullets (game s) ! unat i)
      \<lparr>Bullet.y := Bullet.y (bullets (game s) ! unat i) + scast (Bullet.dir (bullets (game s) ! unat i))\<rparr>"
  define g where "g = (game s)\<lparr>bullets := (bullets (game s))[unat i := b]\<rparr>"
  have nb: "num_bullets g = num_bullets (game s)" by (simp add: g_def)
  consider (out) g' where "remove_bullet i g = Inr g'" "s' = s\<lparr>game := g'\<rparr>"
    | (alien) "alien_bullet i b (s\<lparr>game := g\<rparr>) = Inr (fl, s')"
    | (player) "player_bullet i (s\<lparr>game := g\<rparr>) = Inr (fl, s')"
    using assms unfolding simulate_bullet_def Let_def b_def [symmetric] g_def [symmetric]
    by (simp split: if_splits sum.splits)
  then show ?thesis
  proof cases
    case out
    then show ?thesis using remove_bullet_num [of i g g'] nb by simp
  next
    case alien
    then show ?thesis using alien_bullet_num [of i b "s\<lparr>game := g\<rparr>" fl s'] nb by simp
  next
    case player
    then show ?thesis using player_bullet_num [of i "s\<lparr>game := g\<rparr>" fl s'] nb by simp
  qed
qed

lemma bullets_measure:
  assumes "(i :: size_t) < n" and "n' = n \<or> n' = n - 1"
  shows "unat n' - unat (i + 1) < unat n - unat i"
proof -
  have 1: "unat (i + 1) = Suc (unat i)" using assms(1) by (rule unat_plus1)
  have 2: "unat i < unat n" using assms(1) by (simp add: word_less_nat_alt)
  have "unat (n - 1) \<le> unat n" using assms(1) by unat_arith
  then have 3: "unat n' \<le> unat n" using assms(2) by auto
  from 1 2 3 show ?thesis by arith
qed

termination simulate_bullets
proof (relation "measure (\<lambda>(i, s). unat (num_bullets (game s)) - unat i)", goal_cases)
  case 1
  show ?case by (rule wf_measure)
next
  case (2 i s x2 x1 s')
  have "num_bullets (game s') = num_bullets (game s) \<or>
        num_bullets (game s') = num_bullets (game s) - 1"
    using 2 simulate_bullet_num [of i s Next s'] by simp
  with 2(1) have "unat (num_bullets (game s')) - unat (i + 1) < unat (num_bullets (game s)) - unat i"
    by (rule bullets_measure)
  then show ?case by (simp only: in_measure split_conv)
qed

declare simulate_bullets.simps [simp del]

section \<open>The block for a player bullet against an alien bullet\<close>

text \<open>
  C9. For every state, running the block ``Check if player bullet hits an alien bullet''
  changes nothing, neither the bullets and their number nor anything else: the inner
  loop compares its index with itself and always continues. The branch for a player
  bullet is therefore the check against the aliens alone.
\<close>

theorem bullet_block_changes_nothing:
  "bullet_vs_bullet 0 s = Inr s \<and>
   player_bullet i s =
     (case check_hit [0..<unat (num_aliens (game s))] i s of
        Inl e \<Rightarrow> Inl e
      | Inr s' \<Rightarrow> Inr (Next, s'))"
  by (simp add: player_bullet_def bullet_vs_bullet_skip)

section \<open>A shot with the array of bullets full\<close>

definition full_pool_state :: State where
  "full_pool_state =
     initial_state\<lparr>fire_pressed := True, game := (game initial_state)\<lparr>num_bullets := 128\<rparr>\<rparr>"

text \<open>
  C6. If the fire flag is set while the pool holds 128 bullets, the fire step spawns no
  bullet and raises no error; it returns the state unchanged except that the flag is
  cleared.
\<close>

theorem fire_with_full_pool:
  "fire_pressed s \<Longrightarrow> num_bullets (game s) = 128 \<Longrightarrow>
   process_events s = Inr (s\<lparr>fire_pressed := False\<rparr>)"
  by (simp add: process_events_def bind_e_def game_max_bullets_def)

theorem fire_with_full_pool_witness:
  "fire_pressed full_pool_state \<and> num_bullets (game full_pool_state) = 128 \<and>
   process_events full_pool_state = Inr (full_pool_state\<lparr>fire_pressed := False\<rparr>)"
proof -
  have 1: "fire_pressed full_pool_state" by (simp add: full_pool_state_def)
  have 2: "num_bullets (game full_pool_state) = 128" by (simp add: full_pool_state_def)
  show ?thesis using 1 2 fire_with_full_pool [OF 1 2] by simp
qed

section \<open>No lives left\<close>

lemma key_callback_fields:
  "\<exists>r m f. key_callback k a s = s\<lparr>game_running := r, move_dir := m, fire_pressed := f\<rparr>"
proof -
  have "key_callback k a s = s\<lparr>game_running := game_running (key_callback k a s),
       move_dir := move_dir (key_callback k a s), fire_pressed := fire_pressed (key_callback k a s)\<rparr>"
    by (cases k) (simp_all add: case_GLFW_KEY_D_def)
  then show ?thesis by blast
qed

lemma glfwPollEvents_fields:
  "\<exists>r m f. glfwPollEvents evs s = s\<lparr>game_running := r, move_dir := m, fire_pressed := f\<rparr>"
proof (induction evs arbitrary: s)
  case Nil
  have "s = s\<lparr>game_running := game_running s, move_dir := move_dir s, fire_pressed := fire_pressed s\<rparr>"
    by simp
  then show ?case by (metis glfwPollEvents.simps(1))
next
  case (Cons ev evs)
  obtain k a where ev: "ev = (k, a)" by (cases ev)
  obtain r m f where 1: "key_callback k a s = s\<lparr>game_running := r, move_dir := m, fire_pressed := f\<rparr>"
    using key_callback_fields by blast
  obtain r' m' f' where 2: "glfwPollEvents evs (key_callback k a s) =
      (key_callback k a s)\<lparr>game_running := r', move_dir := m', fire_pressed := f'\<rparr>"
    using Cons.IH by blast
  have "glfwPollEvents (ev # evs) s = s\<lparr>game_running := r', move_dir := m', fire_pressed := f'\<rparr>"
    by (simp add: ev 2) (simp add: 1)
  then show ?case by blast
qed

lemma frame_game_over:
  assumes "lives (player (game s)) = 0"
  shows "\<exists>r m f. frame evs s = Some (Inr (s\<lparr>game_running := r, move_dir := m, fire_pressed := f\<rparr>))"
  using assms glfwPollEvents_fields [of evs s] by (auto simp: frame_def)

lemma main_loop_game_over:
  assumes "lives (player (game s)) = 0"
  shows "\<exists>r m f. main_loop evss s =
           Some (Inr (s\<lparr>game_running := r, move_dir := m, fire_pressed := f\<rparr>))"
  using assms
proof (induction evss arbitrary: s)
  case Nil
  have "s = s\<lparr>game_running := game_running s, move_dir := move_dir s, fire_pressed := fire_pressed s\<rparr>"
    by simp
  then show ?case by (metis main_loop.simps(1))
next
  case (Cons evs evss)
  show ?case
  proof (cases "game_running s")
    case False
    have "s = s\<lparr>game_running := game_running s, move_dir := move_dir s, fire_pressed := fire_pressed s\<rparr>"
      by simp
    moreover have "main_loop (evs # evss) s = Some (Inr s)" using False by simp
    ultimately show ?thesis by metis
  next
    case True
    obtain r m f where 1: "frame evs s = Some (Inr (s\<lparr>game_running := r, move_dir := m, fire_pressed := f\<rparr>))"
      using frame_game_over [OF Cons.prems] by blast
    let ?s1 = "s\<lparr>game_running := r, move_dir := m, fire_pressed := f\<rparr>"
    have "lives (player (game ?s1)) = 0" using Cons.prems by simp
    from Cons.IH [OF this] obtain r' m' f' where
      2: "main_loop evss ?s1 = Some (Inr (?s1\<lparr>game_running := r', move_dir := m', fire_pressed := f'\<rparr>))"
      by blast
    have "main_loop (evs # evss) s = Some (Inr (s\<lparr>game_running := r', move_dir := m', fire_pressed := f'\<rparr>))"
      using True 1 2 by simp
    then show ?thesis by blast
  qed
qed

definition game_over_state :: State where
  "game_over_state =
     initial_state\<lparr>game := (game initial_state)
       \<lparr>player := (player (game initial_state))\<lparr>lives := 0\<rparr>\<rparr>\<rparr>"

text \<open>
  C7. Once the player has no lives left, every later pass of the loop, whatever keys
  arrive, leaves the state as it is apart from the three variables the key callback
  writes (\<^verbatim>\<open>game_running\<close>, \<^verbatim>\<open>move_dir\<close>, \<^verbatim>\<open>fire_pressed\<close>): the aliens, the bullets and
  their number, the player and the score stay unchanged, for any number of passes, and
  no pass fails or hangs.
\<close>

theorem game_over_frozen:
  assumes "lives (player (game s)) = 0"
  shows "\<exists>s'. main_loop evss s = Some (Inr s') \<and>
           s' = s\<lparr>game_running := game_running s', move_dir := move_dir s',
                  fire_pressed := fire_pressed s'\<rparr> \<and>
           game s' = game s \<and> score s' = score s"
proof -
  obtain r m f where
    "main_loop evss s = Some (Inr (s\<lparr>game_running := r, move_dir := m, fire_pressed := f\<rparr>))"
    using main_loop_game_over [OF assms] by blast
  then show ?thesis by simp
qed

theorem game_over_frozen_witness:
  "lives (player (game game_over_state)) = 0 \<and>
   (\<exists>s'. main_loop [[(GLFW_KEY_A, GLFW_PRESS)], [(GLFW_KEY_SPACE, GLFW_PRESS)], []] game_over_state
            = Some (Inr s') \<and>
          s' = game_over_state\<lparr>game_running := game_running s', move_dir := move_dir s',
                 fire_pressed := fire_pressed s'\<rparr> \<and>
          game s' = game game_over_state \<and> score s' = score game_over_state)"
proof -
  have 1: "lives (player (game game_over_state)) = 0"
    by (simp add: game_over_state_def)
  show ?thesis by (rule conjI [OF 1 game_over_frozen [OF 1]])
qed

section \<open>The player at the walls\<close>

text \<open>A move that passes neither test of ``simulating player'' stays inside the field.\<close>

lemma move_inside_range:
  fixes px :: "64 word" and pm :: "32 word"
  assumes "px \<le> 213" "\<not> 224 \<le> px + 11 + scast pm" "\<not> sint (ucast px + pm :: 32 word) \<le> 0"
  shows "px + scast pm \<le> 213"
proof -
  define X where "X = uint px"
  define P where "P = sint pm"
  have X: "0 \<le> X" "X \<le> 213" using assms(1) by (simp_all add: X_def word_le_def)
  have P1: "- (2 ^ 31) \<le> P" unfolding P_def using sint_greater_eq [of pm] by simp
  have P2: "P < 2 ^ 31" unfolding P_def using sint_less [of pm] by simp
  note P = P1 P2
  have sc: "uint (scast pm :: 64 word) = P mod 2 ^ 64"
  proof -
    have "uint (scast pm :: 64 word) = uint (word_of_int (sint pm) :: 64 word)"
      by (simp only: scast_eq)
    also have "\<dots> = sint pm mod 2 ^ 64"
      by (simp only: uint_word_of_int_eq take_bit_eq_mod) simp
    finally show ?thesis by (simp only: P_def)
  qed
  have A: "(X + 11 + P) mod 2 ^ 64 < 224"
    using assms(2) by (simp add: word_le_def uint_word_ariths sc X_def mod_simps not_le)
  have uc: "sint (ucast px :: 32 word) = X"
  proof -
    have "sint (ucast px :: 32 word) = signed_take_bit (31::nat) X"
      unfolding X_def by (simp only: signed_ucast_eq) simp
    also have "\<dots> = X" using X by (intro signed_take_bit_int_eq_self) auto
    finally show ?thesis .
  qed
  have "sint (ucast px + pm :: 32 word) = signed_take_bit (31::nat) (sint (ucast px :: 32 word) + sint pm)"
    by (simp only: sint_word_ariths) simp
  then have B: "0 < signed_take_bit (31::nat) (X + P)"
    using assms(3) by (simp only: uc P_def not_le)
  have C: "uint (px + scast pm) = (X + P) mod 2 ^ 64"
    by (simp add: uint_word_ariths sc X_def mod_simps)
  have D: "0 \<le> X + P"
  proof (rule ccontr)
    assume n: "\<not> 0 \<le> X + P"
    then have "signed_take_bit (31::nat) (X + P) = X + P"
      using X P by (intro signed_take_bit_int_eq_self) auto
    with B n show False by simp
  qed
  then have "X + P < 213"
    using A X P by (auto simp: mod_pos_pos_trivial)
  with D have "(X + P) mod 2 ^ 64 \<le> 213" by (simp add: mod_pos_pos_trivial)
  then show ?thesis by (simp add: word_le_def C)
qed

lemma player_in_range:
  assumes "Game.width (game s) = 224" and "Player.x (player (game s)) \<le> 213"
  shows "Player.x (player (game (simulating_player s))) \<le> 213"
  using assms move_inside_range [of "Player.x (player (game s))" "2 * move_dir s"]
  unfolding simulating_player_def Let_def
  by (simp add: player_sprite_def)


definition left_wall_state :: State where
  "left_wall_state =
     initial_state\<lparr>move_dir := - 6,
       game := (game initial_state)\<lparr>player := (player (game initial_state))\<lparr>Player.x := 0\<rparr>\<rparr>\<rparr>"

text \<open>
  C10. The claim: after the step of the player \<open>0 \<le> x \<le> 213\<close>, and a move that would cross
  a bound puts the player exactly on that bound. The range holds (\<open>player_in_range\<close>).
  The second part fails on the code: with the player at the left wall (\<open>x = 0\<close>) and
  \<^verbatim>\<open>move_dir = -6\<close>, the move of -12 would cross the left bound, yet the first test adds
  -12 to \<open>0 + 11\<close> as a \<^verbatim>\<open>size_t\<close>, the sum wraps around to a value above the width, and
  the player is put on the right bound, 213.
\<close>

theorem player_crossing_left_lands_right:
  "Player.x (player (game left_wall_state)) = 0 \<and>
   move_dir left_wall_state = - 6 \<and>
   Player.x (player (game (simulating_player left_wall_state))) = 213"
  by (simp add: simulating_player_def left_wall_state_def initial_state_def player_sprite_def Let_def)

section \<open>The value of \<^verbatim>\<open>random\<close>\<close>

lemma random_less_one_iff: "fst (random r) < 1 \<longleftrightarrow> fst (xorshift32 r) \<noteq> uint32_max"
proof -
  define n where "n = unat (fst (xorshift32 r))"
  have "n < 2 ^ 32"
    unfolding n_def using unsigned_less [of "fst (xorshift32 r)"] by simp
  then have le: "n \<le> 4294967295" by simp
  have eq: "n = 4294967295 \<longleftrightarrow> fst (xorshift32 r) = 4294967295"
    unfolding n_def by (simp add: word_eq_iff_unsigned [where ?'a = nat])
  have "fst (random r) = real n / 4294967295"
    unfolding n_def by (simp add: random_def uint32_max_def split_beta)
  moreover have "real n / 4294967295 < 1 \<longleftrightarrow> n < 4294967295" by simp
  ultimately show ?thesis using le eq by (simp add: uint32_max_def) arith
qed

text \<open>
  C8. The claim: the value of \<^verbatim>\<open>random\<close> is in \<open>[0, 1)\<close> for every state the generator
  reaches. On the code the divisor is the largest 32-bit value itself, so the value is 1
  when \<^verbatim>\<open>xorshift32\<close> returns that value, which it does from the state 1584200935.
\<close>

theorem random_returns_one:
  "random 1584200935 = (1, 4294967295)"
  by (simp add: random_def xorshift32_def uint32_max_def Let_def)

section \<open>The new wave\<close>

lemma initial_aliens_eq: "initial_aliens =
     [\<lparr>Alien.x = 24, Alien.y = 128, Alien.type = 3\<rparr>, \<lparr>Alien.x = 40, Alien.y = 128, Alien.type = 3\<rparr>,
      \<lparr>Alien.x = 56, Alien.y = 128, Alien.type = 3\<rparr>, \<lparr>Alien.x = 72, Alien.y = 128, Alien.type = 3\<rparr>,
      \<lparr>Alien.x = 88, Alien.y = 128, Alien.type = 3\<rparr>, \<lparr>Alien.x = 104, Alien.y = 128, Alien.type = 3\<rparr>,
      \<lparr>Alien.x = 120, Alien.y = 128, Alien.type = 3\<rparr>, \<lparr>Alien.x = 136, Alien.y = 128, Alien.type = 3\<rparr>,
      \<lparr>Alien.x = 152, Alien.y = 128, Alien.type = 3\<rparr>, \<lparr>Alien.x = 168, Alien.y = 128, Alien.type = 3\<rparr>,
      \<lparr>Alien.x = 184, Alien.y = 128, Alien.type = 3\<rparr>, \<lparr>Alien.x = 24, Alien.y = 145, Alien.type = 3\<rparr>,
      \<lparr>Alien.x = 40, Alien.y = 145, Alien.type = 3\<rparr>, \<lparr>Alien.x = 56, Alien.y = 145, Alien.type = 3\<rparr>,
      \<lparr>Alien.x = 72, Alien.y = 145, Alien.type = 3\<rparr>, \<lparr>Alien.x = 88, Alien.y = 145, Alien.type = 3\<rparr>,
      \<lparr>Alien.x = 104, Alien.y = 145, Alien.type = 3\<rparr>, \<lparr>Alien.x = 120, Alien.y = 145, Alien.type = 3\<rparr>,
      \<lparr>Alien.x = 136, Alien.y = 145, Alien.type = 3\<rparr>, \<lparr>Alien.x = 152, Alien.y = 145, Alien.type = 3\<rparr>,
      \<lparr>Alien.x = 168, Alien.y = 145, Alien.type = 3\<rparr>, \<lparr>Alien.x = 184, Alien.y = 145, Alien.type = 3\<rparr>,
      \<lparr>Alien.x = 25, Alien.y = 162, Alien.type = 2\<rparr>, \<lparr>Alien.x = 41, Alien.y = 162, Alien.type = 2\<rparr>,
      \<lparr>Alien.x = 57, Alien.y = 162, Alien.type = 2\<rparr>, \<lparr>Alien.x = 73, Alien.y = 162, Alien.type = 2\<rparr>,
      \<lparr>Alien.x = 89, Alien.y = 162, Alien.type = 2\<rparr>, \<lparr>Alien.x = 105, Alien.y = 162, Alien.type = 2\<rparr>,
      \<lparr>Alien.x = 121, Alien.y = 162, Alien.type = 2\<rparr>, \<lparr>Alien.x = 137, Alien.y = 162, Alien.type = 2\<rparr>,
      \<lparr>Alien.x = 153, Alien.y = 162, Alien.type = 2\<rparr>, \<lparr>Alien.x = 169, Alien.y = 162, Alien.type = 2\<rparr>,
      \<lparr>Alien.x = 185, Alien.y = 162, Alien.type = 2\<rparr>, \<lparr>Alien.x = 25, Alien.y = 179, Alien.type = 2\<rparr>,
      \<lparr>Alien.x = 41, Alien.y = 179, Alien.type = 2\<rparr>, \<lparr>Alien.x = 57, Alien.y = 179, Alien.type = 2\<rparr>,
      \<lparr>Alien.x = 73, Alien.y = 179, Alien.type = 2\<rparr>, \<lparr>Alien.x = 89, Alien.y = 179, Alien.type = 2\<rparr>,
      \<lparr>Alien.x = 105, Alien.y = 179, Alien.type = 2\<rparr>, \<lparr>Alien.x = 121, Alien.y = 179, Alien.type = 2\<rparr>,
      \<lparr>Alien.x = 137, Alien.y = 179, Alien.type = 2\<rparr>, \<lparr>Alien.x = 153, Alien.y = 179, Alien.type = 2\<rparr>,
      \<lparr>Alien.x = 169, Alien.y = 179, Alien.type = 2\<rparr>, \<lparr>Alien.x = 185, Alien.y = 179, Alien.type = 2\<rparr>,
      \<lparr>Alien.x = 26, Alien.y = 196, Alien.type = 1\<rparr>, \<lparr>Alien.x = 42, Alien.y = 196, Alien.type = 1\<rparr>,
      \<lparr>Alien.x = 58, Alien.y = 196, Alien.type = 1\<rparr>, \<lparr>Alien.x = 74, Alien.y = 196, Alien.type = 1\<rparr>,
      \<lparr>Alien.x = 90, Alien.y = 196, Alien.type = 1\<rparr>, \<lparr>Alien.x = 106, Alien.y = 196, Alien.type = 1\<rparr>,
      \<lparr>Alien.x = 122, Alien.y = 196, Alien.type = 1\<rparr>, \<lparr>Alien.x = 138, Alien.y = 196, Alien.type = 1\<rparr>,
      \<lparr>Alien.x = 154, Alien.y = 196, Alien.type = 1\<rparr>, \<lparr>Alien.x = 170, Alien.y = 196, Alien.type = 1\<rparr>,
      \<lparr>Alien.x = 186, Alien.y = 196, Alien.type = 1\<rparr>]"
  by code_simp

text \<open>The aliens of the start, read column by column: slot \<open>5 * xi + yi\<close> holds the alien
  that the start put in slot \<open>11 * yi + xi\<close> (column \<open>xi\<close>, row \<open>yi\<close>).\<close>

definition wave_aliens :: "Alien list" where
  "wave_aliens = map (\<lambda>k. initial_aliens ! (11 * (k mod 5) + k div 5)) [0..<55]"

lemma wave_aliens_eq: "wave_aliens =
     [\<lparr>Alien.x = 24, Alien.y = 128, Alien.type = 3\<rparr>, \<lparr>Alien.x = 24, Alien.y = 145, Alien.type = 3\<rparr>,
      \<lparr>Alien.x = 25, Alien.y = 162, Alien.type = 2\<rparr>, \<lparr>Alien.x = 25, Alien.y = 179, Alien.type = 2\<rparr>,
      \<lparr>Alien.x = 26, Alien.y = 196, Alien.type = 1\<rparr>, \<lparr>Alien.x = 40, Alien.y = 128, Alien.type = 3\<rparr>,
      \<lparr>Alien.x = 40, Alien.y = 145, Alien.type = 3\<rparr>, \<lparr>Alien.x = 41, Alien.y = 162, Alien.type = 2\<rparr>,
      \<lparr>Alien.x = 41, Alien.y = 179, Alien.type = 2\<rparr>, \<lparr>Alien.x = 42, Alien.y = 196, Alien.type = 1\<rparr>,
      \<lparr>Alien.x = 56, Alien.y = 128, Alien.type = 3\<rparr>, \<lparr>Alien.x = 56, Alien.y = 145, Alien.type = 3\<rparr>,
      \<lparr>Alien.x = 57, Alien.y = 162, Alien.type = 2\<rparr>, \<lparr>Alien.x = 57, Alien.y = 179, Alien.type = 2\<rparr>,
      \<lparr>Alien.x = 58, Alien.y = 196, Alien.type = 1\<rparr>, \<lparr>Alien.x = 72, Alien.y = 128, Alien.type = 3\<rparr>,
      \<lparr>Alien.x = 72, Alien.y = 145, Alien.type = 3\<rparr>, \<lparr>Alien.x = 73, Alien.y = 162, Alien.type = 2\<rparr>,
      \<lparr>Alien.x = 73, Alien.y = 179, Alien.type = 2\<rparr>, \<lparr>Alien.x = 74, Alien.y = 196, Alien.type = 1\<rparr>,
      \<lparr>Alien.x = 88, Alien.y = 128, Alien.type = 3\<rparr>, \<lparr>Alien.x = 88, Alien.y = 145, Alien.type = 3\<rparr>,
      \<lparr>Alien.x = 89, Alien.y = 162, Alien.type = 2\<rparr>, \<lparr>Alien.x = 89, Alien.y = 179, Alien.type = 2\<rparr>,
      \<lparr>Alien.x = 90, Alien.y = 196, Alien.type = 1\<rparr>, \<lparr>Alien.x = 104, Alien.y = 128, Alien.type = 3\<rparr>,
      \<lparr>Alien.x = 104, Alien.y = 145, Alien.type = 3\<rparr>, \<lparr>Alien.x = 105, Alien.y = 162, Alien.type = 2\<rparr>,
      \<lparr>Alien.x = 105, Alien.y = 179, Alien.type = 2\<rparr>, \<lparr>Alien.x = 106, Alien.y = 196, Alien.type = 1\<rparr>,
      \<lparr>Alien.x = 120, Alien.y = 128, Alien.type = 3\<rparr>, \<lparr>Alien.x = 120, Alien.y = 145, Alien.type = 3\<rparr>,
      \<lparr>Alien.x = 121, Alien.y = 162, Alien.type = 2\<rparr>, \<lparr>Alien.x = 121, Alien.y = 179, Alien.type = 2\<rparr>,
      \<lparr>Alien.x = 122, Alien.y = 196, Alien.type = 1\<rparr>, \<lparr>Alien.x = 136, Alien.y = 128, Alien.type = 3\<rparr>,
      \<lparr>Alien.x = 136, Alien.y = 145, Alien.type = 3\<rparr>, \<lparr>Alien.x = 137, Alien.y = 162, Alien.type = 2\<rparr>,
      \<lparr>Alien.x = 137, Alien.y = 179, Alien.type = 2\<rparr>, \<lparr>Alien.x = 138, Alien.y = 196, Alien.type = 1\<rparr>,
      \<lparr>Alien.x = 152, Alien.y = 128, Alien.type = 3\<rparr>, \<lparr>Alien.x = 152, Alien.y = 145, Alien.type = 3\<rparr>,
      \<lparr>Alien.x = 153, Alien.y = 162, Alien.type = 2\<rparr>, \<lparr>Alien.x = 153, Alien.y = 179, Alien.type = 2\<rparr>,
      \<lparr>Alien.x = 154, Alien.y = 196, Alien.type = 1\<rparr>, \<lparr>Alien.x = 168, Alien.y = 128, Alien.type = 3\<rparr>,
      \<lparr>Alien.x = 168, Alien.y = 145, Alien.type = 3\<rparr>, \<lparr>Alien.x = 169, Alien.y = 162, Alien.type = 2\<rparr>,
      \<lparr>Alien.x = 169, Alien.y = 179, Alien.type = 2\<rparr>, \<lparr>Alien.x = 170, Alien.y = 196, Alien.type = 1\<rparr>,
      \<lparr>Alien.x = 184, Alien.y = 128, Alien.type = 3\<rparr>, \<lparr>Alien.x = 184, Alien.y = 145, Alien.type = 3\<rparr>,
      \<lparr>Alien.x = 185, Alien.y = 162, Alien.type = 2\<rparr>, \<lparr>Alien.x = 185, Alien.y = 179, Alien.type = 2\<rparr>,
      \<lparr>Alien.x = 186, Alien.y = 196, Alien.type = 1\<rparr>]"
  unfolding wave_aliens_def initial_aliens_eq by code_simp

lemma mset_wave_aliens: "mset wave_aliens = mset initial_aliens"
  unfolding wave_aliens_eq initial_aliens_eq by simp

lemma alive_wave_aliens: "list_all (\<lambda>a. Alien.type a \<noteq> DEAD) wave_aliens"
  unfolding wave_aliens_eq by (simp add: DEAD_def)

lemma alien_overwrite:
  "(a :: Alien)\<lparr>Alien.type := t, Alien.x := u, Alien.y := v\<rparr> = \<lparr>Alien.x = u, Alien.y = v, Alien.type = t\<rparr>"
  by (cases a) simp

lemma fold_update_enumerate:
  "n + length ws \<le> length xs \<Longrightarrow>
   fold (\<lambda>(i, w) l. l[i := w]) (enumerate n ws) xs = take n xs @ ws @ drop (n + length ws) xs"
proof (induction ws arbitrary: n xs)
  case Nil
  then show ?case by simp
next
  case (Cons w ws)
  have "fold (\<lambda>(i, w) l. l[i := w]) (enumerate n (w # ws)) xs =
        fold (\<lambda>(i, w) l. l[i := w]) (enumerate (Suc n) ws) (xs[n := w])" by simp
  also have "\<dots> = take (Suc n) (xs[n := w]) @ ws @ drop (Suc n + length ws) (xs[n := w])"
    using Cons.prems by (intro Cons.IH) simp
  also have "\<dots> = take n xs @ (w # ws) @ drop (n + length (w # ws)) xs"
    using Cons.prems by (simp add: take_Suc_conv_app_nth)
  finally show ?case .
qed

lemma fold_update_all:
  "length xs = length ws \<Longrightarrow> fold (\<lambda>(i, w) l. l[i := w]) (enumerate 0 ws) xs = ws"
  using fold_update_enumerate [of 0 ws xs] by simp

lemma reset_wave_result:
  assumes len: "length (aliens (game s)) = 55" "length (alien_death_counter s) = 55"
  shows "\<exists>s'. reset_wave s = Inr s' \<and> aliens (game s') = wave_aliens \<and> aliens_killed s' = 0"
proof -
  have "length (aliens (game s)) = length wave_aliens" by (simp add: len wave_aliens_def)
  then have W: "fold (\<lambda>(i, w) l. l[i := w]) (enumerate 0 wave_aliens) (aliens (game s)) = wave_aliens"
    by (rule fold_update_all)
  have "\<exists>s'. reset_wave s = Inr s' \<and>
          aliens (game s') =
            fold (\<lambda>(i, w) l. l[i := w]) (enumerate 0 wave_aliens) (aliens (game s)) \<and>
          aliens_killed s' = 0"
    by (simp add: wave_aliens_eq reset_wave_def reset_alien_def type_sprite_def alien_sprites_def
        alien_death_sprite_def upt_rec len Let_def alien_overwrite numeral_2_eq_2 [symmetric])
  then show ?thesis by (simp only: W)
qed


definition cleared_state :: State where
  "cleared_state =
     initial_state\<lparr>aliens_killed := 55,
       game := (game initial_state)
         \<lparr>aliens := map (\<lambda>a. a\<lparr>Alien.type := DEAD\<rparr>) initial_aliens\<rparr>\<rparr>"

text \<open>
  C3. When the kill count has reached 55, the step that follows the player's move resets
  the wave: it succeeds, sets the kill count to 0 and leaves exactly 55 aliens, all
  alive, each with the kind of its row (\<open>(5 - row) / 2 + 1\<close>, the row read off its height)
  and with the position the initial spawn computes for the same column and row. The
  aliens are the initial ones as a collection; they are stored column by column, where
  the start stores them row by row.
\<close>

theorem wave_reset_restores:
  assumes "aliens_killed s = 55" and "num_aliens (game s) = 55"
    and "length (aliens (game s)) = 55" and "length (alien_death_counter s) = 55"
  shows "\<exists>s'. swarm_bounds_or_reset s = Inr s' \<and>
           aliens_killed s' = 0 \<and>
           length (aliens (game s')) = 55 \<and>
           list_all (\<lambda>a. Alien.type a \<noteq> DEAD) (aliens (game s')) \<and>
           list_all (\<lambda>a. Alien.type a = ucast ((5 - (Alien.y a - 128) div 17) div 2 + 1))
             (aliens (game s')) \<and>
           aliens (game s') = map (\<lambda>k. initial_aliens ! (11 * (k mod 5) + k div 5)) [0..<55] \<and>
           mset (aliens (game s')) = mset initial_aliens"
proof -
  have reset: "swarm_bounds_or_reset s = reset_wave s"
    using assms(1,2) by (simp add: swarm_bounds_or_reset_def)
  obtain s' where s': "reset_wave s = Inr s'" "aliens (game s') = wave_aliens" "aliens_killed s' = 0"
    using reset_wave_result [OF assms(3,4)] by blast
  have "length wave_aliens = 55" by (simp add: wave_aliens_def)
  moreover have "list_all (\<lambda>a. Alien.type a = ucast ((5 - (Alien.y a - 128) div 17) div 2 + 1))
      wave_aliens"
    unfolding wave_aliens_eq by simp
  ultimately show ?thesis
    using reset s' alive_wave_aliens mset_wave_aliens by (simp add: wave_aliens_def)
qed

theorem wave_reset_restores_witness:
  "aliens_killed cleared_state = 55 \<and> num_aliens (game cleared_state) = 55 \<and>
   length (aliens (game cleared_state)) = 55 \<and> length (alien_death_counter cleared_state) = 55 \<and>
   (\<exists>s'. swarm_bounds_or_reset cleared_state = Inr s' \<and>
      aliens_killed s' = 0 \<and>
      length (aliens (game s')) = 55 \<and>
      list_all (\<lambda>a. Alien.type a \<noteq> DEAD) (aliens (game s')) \<and>
      list_all (\<lambda>a. Alien.type a = ucast ((5 - (Alien.y a - 128) div 17) div 2 + 1))
        (aliens (game s')) \<and>
      aliens (game s') = map (\<lambda>k. initial_aliens ! (11 * (k mod 5) + k div 5)) [0..<55] \<and>
      mset (aliens (game s')) = mset initial_aliens)"
proof -
  have 1: "aliens_killed cleared_state = 55" by (simp add: cleared_state_def)
  have 2: "num_aliens (game cleared_state) = 55" by (simp add: cleared_state_def initial_state_def)
  have 3: "length (aliens (game cleared_state)) = 55"
    by (simp add: cleared_state_def initial_aliens_eq)
  have 4: "length (alien_death_counter cleared_state) = 55"
    by (simp add: cleared_state_def initial_state_def)
  show ?thesis
    by (intro conjI 1 2 3 4 wave_reset_restores [OF 1 2 3 4])
qed

section \<open>A player bullet hits an alien\<close>













end
